theory Spec2Isabelle
  imports Main "HOL-Library.Sublist" "HOL-Library.AList"
begin

section \<open>Strings\<close>

text \<open>
  A Python \<open>str\<close> is modelled as a \<open>string\<close>, one \<open>char\<close> per code point (code points
  up to 255).  The program uses four string operations: \<open>s.split('=')\<close>, \<open>'='.join(xs)\<close>,
  the substring test \<open>sub in s\<close> and \<open>s.splitlines()\<close>.
\<close>

text \<open>\<open>s.split(sep)\<close> for a one-character separator: the fields between the separators,
  never an empty list.\<close>

fun str_split :: "char \<Rightarrow> string \<Rightarrow> string list" where
  "str_split sep [] = [[]]"
| "str_split sep (c # cs) =
     (if c = sep then [] # str_split sep cs
      else (case str_split sep cs of
              [] \<Rightarrow> [[c]]
            | w # ws \<Rightarrow> (c # w) # ws))"

text \<open>\<open>sep.join(xs)\<close> for a one-character separator.\<close>

fun str_join :: "char \<Rightarrow> string list \<Rightarrow> string" where
  "str_join sep [] = []"
| "str_join sep [x] = x"
| "str_join sep (x # y # ys) = x @ sep # str_join sep (y # ys)"

text \<open>\<open>sub in s\<close>: \<open>sub\<close> occurs in \<open>s\<close> as a contiguous substring.\<close>

fun str_contains :: "string \<Rightarrow> string \<Rightarrow> bool" where
  "str_contains sub [] = (sub = [])"
| "str_contains sub (c # cs) = (prefix sub (c # cs) \<or> str_contains sub cs)"

text \<open>The line boundaries of \<open>str.splitlines\<close> among the code points up to 255: LF, VT, FF,
  CR, FS, GS, RS and NEL; CR LF counts as one boundary.\<close>

definition is_linebreak :: "char \<Rightarrow> bool" where
  "is_linebreak c =
     (c = CHR 0x0A \<or> c = CHR 0x0B \<or> c = CHR 0x0C \<or> c = CHR 0x0D \<or>
      c = CHR 0x1C \<or> c = CHR 0x1D \<or> c = CHR 0x1E \<or> c = CHR 0x85)"

text \<open>\<open>splitlines_from cur s\<close> continues a scan in which \<open>cur\<close> is the part of the current
  line already read.  A text that ends in a line boundary has no empty last line.\<close>

fun splitlines_from :: "string \<Rightarrow> string \<Rightarrow> string list" where
  "splitlines_from cur [] = (if cur = [] then [] else [cur])"
| "splitlines_from cur [c] = (if is_linebreak c then [cur] else [cur @ [c]])"
| "splitlines_from cur (c # d # cs) =
     (if c = CHR 0x0D \<and> d = CHR 0x0A then cur # splitlines_from [] cs
      else if is_linebreak c then cur # splitlines_from [] (d # cs)
      else splitlines_from (cur @ [c]) (d # cs))"

definition splitlines :: "string \<Rightarrow> string list" where
  "splitlines s = splitlines_from [] s"

text \<open>\<open>str(n)\<close> for a natural number, as the f-string of the final message renders
  \<open>len(conda_packages)\<close>.\<close>

definition digit :: "nat \<Rightarrow> char" where
  "digit n = ''0123456789'' ! (n mod 10)"

fun str_of_nat :: "nat \<Rightarrow> string" where
  "str_of_nat n = (if n < 10 then [digit n] else str_of_nat (n div 10) @ [digit n])"

declare str_of_nat.simps [simp del]

section \<open>Exceptions, effects and the process environment\<close>

text \<open>
  The exceptions of the modelled operations that the program does not catch: a missing
  key, a value of the wrong type, a missing attribute, the loader's error, a command that
  cannot be started or a file that cannot be opened, and bytes that do not decode as text
  (\<open>subprocess.run\<close> with \<open>text=True\<close> and \<open>file.read()\<close> raise \<open>UnicodeDecodeError\<close>).
  \<open>CalledProcessError\<close> is not among them: both places that can raise it catch it and call
  \<open>sys.exit(1)\<close>.
\<close>

datatype exn =
  KeyError | TypeError | AttributeError | YAMLError | OSError | UnicodeDecodeError

text \<open>How a call ends when it does not return: \<open>sys.exit(n)\<close>, or an exception that
  nothing catches.\<close>

datatype stop = SysExit int | Raised exn

type_synonym path = string

text \<open>What a run does to the outside: the records it logs, the commands it runs and the
  file it writes (the path and the whole text written).\<close>

datatype event =
    LogInfo string
  | LogError string
  | Subprocess "string list"
  | FileWrite path string

text \<open>A call yields the events it caused, in order, and either its result or the way it
  stopped.\<close>

type_synonym 'a io = "event list \<times> (stop + 'a)"

definition seq :: "'a io \<Rightarrow> ('a \<Rightarrow> 'b io) \<Rightarrow> 'b io" where
  "seq m f =
     (case m of
        (evs, Inl s) \<Rightarrow> (evs, Inl s)
      | (evs, Inr a) \<Rightarrow> (case f a of (evs', r) \<Rightarrow> (evs @ evs', r)))"

section \<open>The parsed environment description\<close>

text \<open>
  The values \<open>yaml.safe_load\<close> can return: \<open>None\<close>, a \<open>bool\<close>, an \<open>int\<close>, a \<open>str\<close>, a
  \<open>bytes\<close> (\<open>!!binary\<close>), a \<open>list\<close>, a \<open>tuple\<close> (the pairs inside \<open>!!omap\<close> and
  \<open>!!pairs\<close>), a \<open>dict\<close>, a \<open>set\<close> (\<open>!!set\<close>), and the remaining scalars (a \<open>float\<close>, a
  date, a timestamp), which \<open>YScalar\<close> holds by their text: they cannot be subscripted or
  iterated and have no \<open>split\<close>.  A \<open>dict\<close> is its pairs in insertion order, looked up by
  key; a \<open>set\<close> is its elements as the document lists them, each once.  The loader itself
  belongs to PyYAML, so every function that calls it takes it as the parameter
  \<open>safe_load\<close>.
\<close>

datatype yaml =
    YNull
  | YBool bool
  | YInt int
  | YScalar string
  | YStr string
  | YBytes "nat list"
  | YSeq "yaml list"
  | YTuple "yaml list"
  | YMap "(yaml \<times> yaml) list"
  | YSet "yaml list"

text \<open>\<open>obj[key]\<close> for a string key: only a \<open>dict\<close> can be subscripted with a string.\<close>

fun subscript :: "yaml \<Rightarrow> string \<Rightarrow> exn + yaml" where
  "subscript (YMap kvs) key =
     (case map_of kvs (YStr key) of None \<Rightarrow> Inl KeyError | Some v \<Rightarrow> Inr v)"
| "subscript _ key = Inl TypeError"

text \<open>
  \<open>for x in obj\<close>: a list or a tuple gives its elements, a string its characters, a
  \<open>bytes\<close> its bytes as integers, a \<open>dict\<close> its keys.  A \<open>set\<close> gives its elements in the
  order of its hash table, and the hash of a string changes from one process to the next
  (hash randomisation): \<open>key_of\<close> is the key by which the process orders the elements.
  Nothing else can be iterated.
\<close>

fun iterate :: "(yaml \<Rightarrow> nat) \<Rightarrow> yaml \<Rightarrow> exn + yaml list" where
  "iterate key_of (YSeq xs) = Inr xs"
| "iterate key_of (YTuple xs) = Inr xs"
| "iterate key_of (YStr s) = Inr (map (\<lambda>c. YStr [c]) s)"
| "iterate key_of (YBytes bs) = Inr (map (\<lambda>b. YInt (int b)) bs)"
| "iterate key_of (YMap kvs) = Inr (map fst kvs)"
| "iterate key_of (YSet xs) = Inr (sort_key key_of xs)"
| "iterate key_of _ = Inl TypeError"

section \<open>The surroundings of a run\<close>

text \<open>
  How a command ends: its exit code and its two output streams, each as the text it
  decodes to, or \<open>None\<close> when its bytes do not decode.
\<close>

record process_exit =
  exit_code :: int
  stdout_text :: "string option"
  stderr_text :: "string option"

text \<open>
  What the program reads from its surroundings and never changes: the variables of the
  process environment, how a command ends (\<open>None\<close> when it cannot be started), what
  reading a file as text gives (\<open>OSError\<close> or \<open>UnicodeDecodeError\<close> when it fails), which
  paths can be opened for writing, and the key by which this process orders the elements
  of a set.
\<close>

record world =
  getenv :: "string \<Rightarrow> string option"
  run_process :: "string list \<Rightarrow> process_exit option"
  read_text :: "path \<Rightarrow> exn + string"
  writable :: "path \<Rightarrow> bool"
  hash_key :: "yaml \<Rightarrow> nat"

text \<open>The result object of \<open>subprocess.run(..., stdout=PIPE, stderr=PIPE, text=True)\<close>.\<close>

record completed_process =
  returncode :: int
  stdout :: string
  stderr :: string

text \<open>Both streams are decoded before \<open>subprocess.run\<close> looks at the exit code.\<close>

definition decoded :: "process_exit \<Rightarrow> completed_process option" where
  "decoded p =
     (case stdout_text p of
        None \<Rightarrow> None
      | Some out \<Rightarrow>
          (case stderr_text p of
             None \<Rightarrow> None
           | Some err \<Rightarrow> Some \<lparr> returncode = exit_code p, stdout = out, stderr = err \<rparr>))"

text \<open>
  \<open>subprocess.run(argv, stdout=PIPE, stderr=PIPE, text=True)\<close> up to the test of the exit
  code, which \<open>check=True\<close> adds and the callers below carry out.
\<close>

definition subprocess_run :: "world \<Rightarrow> string list \<Rightarrow> exn + completed_process" where
  "subprocess_run w argv =
     (case run_process w argv of
        None \<Rightarrow> Inl OSError
      | Some p \<Rightarrow>
          (case decoded p of
             None \<Rightarrow> Inl UnicodeDecodeError
           | Some result \<Rightarrow> Inr result))"

section \<open>Dependency extractor: \<open>parse_environment_yml\<close>\<close>

text \<open>\<open>pkg.split('=')[0]\<close>: a \<open>bytes\<close> has \<open>split\<close> but takes no string separator, and
  nothing but a string and a \<open>bytes\<close> has \<open>split\<close>.\<close>

fun split_name :: "yaml \<Rightarrow> exn + string" where
  "split_name (YStr s) = Inr (hd (str_split CHR ''='' s))"
| "split_name (YBytes bs) = Inl TypeError"
| "split_name _ = Inl AttributeError"

text \<open>\<open>[pkg.split('=')[0] for pkg in pkgs]\<close>: the first element that is not a string raises.\<close>

fun split_names :: "yaml list \<Rightarrow> exn + string list" where
  "split_names [] = Inr []"
| "split_names (pkg # pkgs) =
     (case split_name pkg of
        Inl e \<Rightarrow> Inl e
      | Inr n \<Rightarrow> (case split_names pkgs of Inl e \<Rightarrow> Inl e | Inr ns \<Rightarrow> Inr (n # ns)))"

text \<open>The \<open>for dep in env['dependencies']\<close> loop; \<open>conda_packages\<close> is the list built so
  far.\<close>

fun dependencies_loop ::
    "(yaml \<Rightarrow> nat) \<Rightarrow> yaml list \<Rightarrow> string list \<Rightarrow> exn + string list" where
  "dependencies_loop key_of [] conda_packages = Inr conda_packages"
| "dependencies_loop key_of (YStr dep # deps) conda_packages =
     (if \<not> str_contains ''pip'' dep \<and> \<not> str_contains ''python='' dep
      then dependencies_loop key_of deps (conda_packages @ [hd (str_split CHR ''='' dep)])
      else dependencies_loop key_of deps conda_packages)"
| "dependencies_loop key_of (YMap dep # deps) conda_packages =
     (case map_of dep (YStr ''pip'') of
        None \<Rightarrow> dependencies_loop key_of deps conda_packages
      | Some pip \<Rightarrow>
          (case iterate key_of pip of
             Inl e \<Rightarrow> Inl e
           | Inr pkgs \<Rightarrow>
               (case split_names pkgs of
                  Inl e \<Rightarrow> Inl e
                | Inr names \<Rightarrow> dependencies_loop key_of deps (conda_packages @ names))))"
| "dependencies_loop key_of (_ # deps) conda_packages =
     dependencies_loop key_of deps conda_packages"

text \<open>The function reads nothing of its surroundings but the order in which the process
  iterates a set.\<close>

definition parse_environment_yml ::
    "(string \<Rightarrow> exn + yaml) \<Rightarrow> (yaml \<Rightarrow> nat) \<Rightarrow> string \<Rightarrow> exn + string list" where
  "parse_environment_yml safe_load key_of contents =
     (case safe_load contents of
        Inl e \<Rightarrow> Inl e
      | Inr env \<Rightarrow>
          (case subscript env ''dependencies'' of
             Inl e \<Rightarrow> Inl e
           | Inr dependencies \<Rightarrow>
               (case iterate key_of dependencies of
                  Inl e \<Rightarrow> Inl e
                | Inr deps \<Rightarrow> dependencies_loop key_of deps [])))"

section \<open>Installed-version lookup: \<open>get_conda_list_versions\<close>\<close>

text \<open>The \<open>for line in result.stdout.splitlines()\<close> loop; \<open>conda_list\<close> is the list built
  so far.\<close>

fun lines_loop :: "string list \<Rightarrow> string list \<Rightarrow> string list" where
  "lines_loop [] conda_list = conda_list"
| "lines_loop (line # lines) conda_list =
     (if str_contains ''='' line
      then lines_loop lines (conda_list @ [str_join CHR ''='' (take 2 (str_split CHR ''='' line))])
      else lines_loop lines conda_list)"

definition conda_list_argv :: "string list" where
  "conda_list_argv = [''conda'', ''list'', ''--export'']"

text \<open>\<open>check=True\<close> turns a non-zero return code into \<open>CalledProcessError\<close>, which the
  \<open>except\<close> clause answers with an error record and \<open>sys.exit(1)\<close>.\<close>

definition get_conda_list_versions :: "world \<Rightarrow> string list io" where
  "get_conda_list_versions w =
     (case subprocess_run w conda_list_argv of
        Inl e \<Rightarrow> ([Subprocess conda_list_argv], Inl (Raised e))
      | Inr result \<Rightarrow>
          if returncode result \<noteq> 0
          then ([Subprocess conda_list_argv,
                 LogError (''Failed to run conda list: '' @ stderr result)],
                Inl (SysExit 1))
          else ([Subprocess conda_list_argv],
                Inr (lines_loop (splitlines (stdout result)) [])))"

section \<open>Filter and emit\<close>

text \<open>
  Line 55, \<open>{pkg.split('=')[0]: pkg for pkg in conda_list if '=' in pkg}\<close>.  The \<open>dict\<close> is
  its pairs in insertion order; storing under a key that is already there replaces the
  value in place, which is \<open>AList.update\<close>.
\<close>

definition conda_dict :: "string list \<Rightarrow> (string \<times> string) list" where
  "conda_dict conda_list =
     foldl (\<lambda>d pkg. if str_contains ''='' pkg
                     then AList.update (hd (str_split CHR ''='' pkg)) pkg d
                     else d)
       [] conda_list"

text \<open>Line 56, \<open>[conda_dict[pkg] for pkg in history_packages if pkg in conda_dict]\<close>, for
  any \<open>dict\<close> \<open>d\<close>.\<close>

definition filtered_packages :: "string list \<Rightarrow> (string \<times> string) list \<Rightarrow> string list" where
  "filtered_packages history_packages d =
     [the (map_of d pkg). pkg \<leftarrow> history_packages, map_of d pkg \<noteq> None]"

definition filter_conda_list_with_history :: "string list \<Rightarrow> string list \<Rightarrow> string list" where
  "filter_conda_list_with_history history_packages conda_list =
     filtered_packages history_packages (conda_dict conda_list)"

text \<open>The text that the loop of \<open>file.write(package + '\n')\<close> leaves in the file.\<close>

definition written_text :: "string list \<Rightarrow> string" where
  "written_text conda_packages =
     foldl (\<lambda>text package. text @ package @ [CHR 0x0A]) [] conda_packages"

definition write_requirements_txt :: "world \<Rightarrow> string list \<Rightarrow> path \<Rightarrow> unit io" where
  "write_requirements_txt w conda_packages output_file =
     (if writable w output_file
      then ([FileWrite output_file (written_text conda_packages),
             LogInfo (''requirements.txt generated with '' @ str_of_nat (length conda_packages)
                      @ '' packages at '' @ output_file @ ''.'')],
            Inr ())
      else ([], Inl (Raised OSError)))"

section \<open>Source resolver and \<open>main\<close>\<close>

definition get_active_conda_env :: "world \<Rightarrow> string option io" where
  "get_active_conda_env w =
     (let conda_env = getenv w ''CONDA_DEFAULT_ENV'' in
      if conda_env = Some ''base''
      then ([LogError
               ''You are using the 'base' conda environment. Please activate another environment.''],
            Inl (SysExit 1))
      else ([], Inr conda_env))"

definition conda_export_argv :: "string list" where
  "conda_export_argv = [''conda'', ''env'', ''export'', ''--from-history'']"

definition export_conda_env :: "world \<Rightarrow> string io" where
  "export_conda_env w =
     (case subprocess_run w conda_export_argv of
        Inl e \<Rightarrow> ([Subprocess conda_export_argv], Inl (Raised e))
      | Inr result \<Rightarrow>
          if returncode result \<noteq> 0
          then ([Subprocess conda_export_argv,
                 LogError (''Failed to export conda environment: '' @ stderr result)],
                Inl (SysExit 1))
          else ([Subprocess conda_export_argv], Inr (stdout result)))"

text \<open>\<open>f"{conda_env}"\<close>: the name, or \<open>None\<close>.\<close>

definition format_env :: "string option \<Rightarrow> string" where
  "format_env conda_env = (case conda_env of None \<Rightarrow> ''None'' | Some name \<Rightarrow> name)"

text \<open>
  Lines 125 to 135 of \<open>main\<close>: the text of the environment description.  \<open>not yml_file\<close>
  holds for a missing argument and for the empty string.
\<close>

definition yml_contents :: "world \<Rightarrow> path option \<Rightarrow> string io" where
  "yml_contents w yml_file =
     (if yml_file = None \<or> yml_file = Some []
      then seq (get_active_conda_env w) (\<lambda>conda_env.
           seq ([LogInfo (''Retrieving conda environment: '' @ format_env conda_env)], Inr ())
             (\<lambda>_. export_conda_env w))
      else (case read_text w (the yml_file) of
              Inl e \<Rightarrow> ([], Inl (Raised e))
            | Inr contents \<Rightarrow> ([], Inr contents)))"

text \<open>The body of \<open>main\<close>, entered after click has parsed the command line.\<close>

definition main :: "(string \<Rightarrow> exn + yaml) \<Rightarrow> world \<Rightarrow> path option \<Rightarrow> path \<Rightarrow> unit io" where
  "main safe_load w yml_file output =
     seq (yml_contents w yml_file) (\<lambda>contents.
     seq ([], case parse_environment_yml safe_load (hash_key w) contents of
                Inl e \<Rightarrow> Inl (Raised e)
              | Inr names \<Rightarrow> Inr names) (\<lambda>history_packages.
     seq (get_conda_list_versions w) (\<lambda>conda_list.
     write_requirements_txt w
       (filter_conda_list_with_history history_packages conda_list) output)))"

text \<open>The exit status of the process: 0 when \<open>main\<close> returns, the argument of \<open>sys.exit\<close>,
  and 1 when an exception reaches the top.\<close>

fun exit_status :: "stop + unit \<Rightarrow> int" where
  "exit_status (Inr _) = 0"
| "exit_status (Inl (SysExit n)) = n"
| "exit_status (Inl (Raised e)) = 1"

text \<open>The texts a run wrote to files.\<close>

fun files_written :: "event list \<Rightarrow> string list" where
  "files_written [] = []"
| "files_written (FileWrite p text # evs) = text # files_written evs"
| "files_written (_ # evs) = files_written evs"

section \<open>Observations on a run\<close>

text \<open>
  The output artifact is a text of newline-terminated lines, one entry per line.
  \<open>file_entries\<close> reads such a text back as the list of its lines.
\<close>

definition file_entries :: "string \<Rightarrow> string list" where
  "file_entries text = butlast (str_split (CHR 0x0A) text)"

text \<open>
  The parsing rule of the lookup in the specification's words, to compare with the code:
  of a line that contains \<open>=\<close>, the name (all before the first \<open>=\<close>), an \<open>=\<close>, and the
  version (all between the first \<open>=\<close> and the second one, or the end of the line).
\<close>

definition first_two_fields_spec :: "string \<Rightarrow> string" where
  "first_two_fields_spec line =
     takeWhile (\<lambda>c. c \<noteq> CHR ''='') line @ CHR ''='' #
       takeWhile (\<lambda>c. c \<noteq> CHR ''='') (tl (dropWhile (\<lambda>c. c \<noteq> CHR ''='') line))"

text \<open>
  Whether the extractor iterates a set of the document: the value of \<open>dependencies\<close> is a
  set, or the \<open>pip\<close> value of one of the entries is.
\<close>

fun is_set :: "yaml \<Rightarrow> bool" where
  "is_set (YSet xs) = True"
| "is_set _ = False"

fun pip_is_set :: "yaml \<Rightarrow> bool" where
  "pip_is_set (YMap dep) =
     (case map_of dep (YStr ''pip'') of None \<Rightarrow> False | Some pip \<Rightarrow> is_set pip)"
| "pip_is_set _ = False"

definition iterates_set :: "yaml \<Rightarrow> bool" where
  "iterates_set env =
     (case subscript env ''dependencies'' of
        Inl e \<Rightarrow> False
      | Inr dependencies \<Rightarrow>
          is_set dependencies \<or>
          (case iterate (\<lambda>v. 0) dependencies of
             Inl e \<Rightarrow> False
           | Inr deps \<Rightarrow> list_ex pip_is_set deps))"

section \<open>Example inputs\<close>

text \<open>
  Two environment descriptions, each as its text and as the value the loader returns for
  it: one with a list of dependencies, one whose dependencies are a \<open>!!set\<close>.
\<close>

definition example_text :: string where
  "example_text =
     ''name: demo'' @ [CHR 0x0A] @
     ''dependencies:'' @ [CHR 0x0A] @
     ''  - numpy=1.2'' @ [CHR 0x0A] @
     ''  - python=3.9'' @ [CHR 0x0A] @
     ''  - pip:'' @ [CHR 0x0A] @
     ''    - flask=2.0'' @ [CHR 0x0A]"

definition example_env :: yaml where
  "example_env =
     YMap [(YStr ''name'', YStr ''demo''),
           (YStr ''dependencies'',
            YSeq [YStr ''numpy=1.2'', YStr ''python=3.9'',
                  YMap [(YStr ''pip'', YSeq [YStr ''flask=2.0''])]])]"

definition example_set_text :: string where
  "example_set_text =
     ''dependencies: !!set'' @ [CHR 0x0A] @
     ''  ? numpy'' @ [CHR 0x0A] @
     ''  ? flask'' @ [CHR 0x0A]"

definition example_set_env :: yaml where
  "example_set_env = YMap [(YStr ''dependencies'', YSet [YStr ''numpy'', YStr ''flask''])]"

definition example_load :: "string \<Rightarrow> exn + yaml" where
  "example_load contents =
     (if contents = example_text then Inr example_env
      else if contents = example_set_text then Inr example_set_env
      else Inl YAMLError)"

text \<open>A package listing, as \<open>conda list --export\<close> prints it.\<close>

definition example_listing :: string where
  "example_listing =
     ''# platform: linux-64'' @ [CHR 0x0A] @
     ''flask=2.0.1=pyhd3eb1b0_0'' @ [CHR 0x0A] @
     ''numpy=1.2.3=py39h1'' @ [CHR 0x0A] @
     ''python=3.9.1=hdb3f193_2'' @ [CHR 0x0A]"

text \<open>
  A family of surroundings: the active environment and the exit codes of the export and
  of the listing are the parameters.  The export prints the first description, the files
  \<open>environment.yml\<close> and \<open>sets.yml\<close> hold the first and the second, and a set is iterated
  in the order of the document.
\<close>

definition example_world :: "string option \<Rightarrow> int \<Rightarrow> int \<Rightarrow> world" where
  "example_world conda_env export_code list_code =
     \<lparr> getenv = (\<lambda>var. if var = ''CONDA_DEFAULT_ENV'' then conda_env else None),
       run_process = (\<lambda>argv.
         if argv = conda_export_argv
         then Some \<lparr> exit_code = export_code, stdout_text = Some example_text,
                     stderr_text = Some ''export failed'' \<rparr>
         else if argv = conda_list_argv
         then Some \<lparr> exit_code = list_code, stdout_text = Some example_listing,
                     stderr_text = Some ''list failed'' \<rparr>
         else None),
       read_text = (\<lambda>p. if p = ''environment.yml'' then Inr example_text
                         else if p = ''sets.yml'' then Inr example_set_text
                         else Inl OSError),
       writable = (\<lambda>p. True),
       hash_key = (\<lambda>v. 0) \<rparr>"

text \<open>The same surroundings in another process, whose hashes put \<open>numpy\<close> after \<open>flask\<close>.\<close>

definition reseeded_world :: world where
  "reseeded_world =
     (example_world None 0 0)\<lparr> hash_key := (\<lambda>v. if v = YStr ''numpy'' then 1 else 0) \<rparr>"

text \<open>Surroundings in which every command exits with code 3 and an error stream that does
  not decode.\<close>

definition garbled_world :: world where
  "garbled_world =
     (example_world (Some ''work'') 0 0)
       \<lparr> run_process := (\<lambda>argv. Some \<lparr> exit_code = 3, stdout_text = Some [],
                                         stderr_text = None \<rparr>) \<rparr>"

section \<open>Properties of the string operations\<close>

lemma str_split_not_Nil: "str_split sep s \<noteq> []"
  by (induction s) (auto split: list.splits)

lemma str_split_unfold:
  "str_split sep s =
     takeWhile (\<lambda>c. c \<noteq> sep) s #
       (case dropWhile (\<lambda>c. c \<noteq> sep) s of [] \<Rightarrow> [] | _ # rest \<Rightarrow> str_split sep rest)"
proof (induction s)
  case Nil
  show ?case by simp
next
  case (Cons c cs)
  show ?case
  proof (cases "c = sep")
    case True
    then show ?thesis by simp
  next
    case False
    obtain w ws where ws: "str_split sep cs = w # ws"
      using str_split_not_Nil [of sep cs] by (cases "str_split sep cs") auto
    with Cons False show ?thesis by simp
  qed
qed

lemma hd_str_split: "hd (str_split sep s) = takeWhile (\<lambda>c. c \<noteq> sep) s"
  by (subst str_split_unfold) simp

lemma str_contains_sublist: "str_contains sub s \<longleftrightarrow> sublist sub s"
  by (induction s) (auto simp: sublist_Cons_right)

lemma str_contains_single: "str_contains [c] s \<longleftrightarrow> c \<in> set s"
  by (induction s) auto

lemma str_split_no_sep: "sep \<notin> set s \<Longrightarrow> str_split sep s = [s]"
  by (induction s) auto

lemma str_split_append_sep:
  "sep \<notin> set s \<Longrightarrow> str_split sep (s @ sep # t) = s # str_split sep t"
  by (induction s) auto

section \<open>Properties of the loops\<close>

text \<open>Each loop with an accumulator appends to what it was given; the extractor's loop
  runs over a concatenation part by part.\<close>

lemma dependencies_loop_acc:
  "dependencies_loop k deps acc =
     (case dependencies_loop k deps [] of Inl e \<Rightarrow> Inl e | Inr names \<Rightarrow> Inr (acc @ names))"
proof (induction deps arbitrary: acc)
  case Nil
  show ?case by simp
next
  case (Cons dep deps)
  note IH = Cons.IH
  show ?case
  proof (cases dep)
    case (YStr s)
    show ?thesis
      unfolding YStr
      by (simp add: IH [of "acc @ [hd (str_split CHR ''='' s)]"] IH [of "[hd (str_split CHR ''='' s)]"]
            IH [of acc] split: sum.splits)
  next
    case (YMap kvs)
    show ?thesis
    proof (cases "map_of kvs (YStr ''pip'')")
      case None
      then show ?thesis unfolding YMap by (simp add: IH [of acc])
    next
      case (Some pip)
      show ?thesis
      proof (cases "iterate k pip")
        case (Inl e)
        with Some show ?thesis unfolding YMap by simp
      next
        case (Inr pkgs)
        show ?thesis
        proof (cases "split_names pkgs")
          case (Inl e)
          with Some Inr show ?thesis unfolding YMap by simp
        next
          case names: (Inr names)
          with Some Inr show ?thesis unfolding YMap
            by (simp add: IH [of "acc @ names"] IH [of names] split: sum.splits)
        qed
      qed
    qed
  qed (simp_all add: IH [of acc])
qed

lemma dependencies_loop_append:
  "dependencies_loop k (xs @ ys) acc =
     (case dependencies_loop k xs acc of
        Inl e \<Rightarrow> Inl e
      | Inr acc' \<Rightarrow> dependencies_loop k ys acc')"
proof (induction k xs acc rule: dependencies_loop.induct)
  case (3 key_of dep deps conda_packages)
  then show ?case by (simp split: option.splits sum.splits)
qed simp_all

text \<open>The order of a set matters only where a set is iterated.\<close>

lemma iterate_no_set: "\<not> is_set v \<Longrightarrow> iterate k1 v = iterate k2 v"
  by (cases v) simp_all

lemma dependencies_loop_no_set:
  "\<not> list_ex pip_is_set deps \<Longrightarrow>
   dependencies_loop k1 deps acc = dependencies_loop k2 deps acc"
proof (induction k1 deps acc rule: dependencies_loop.induct)
  case (3 key_of dep deps conda_packages)
  show ?case
  proof (cases "map_of dep (YStr ''pip'')")
    case None
    with 3 show ?thesis by simp
  next
    case (Some pip)
    with 3(3) have ns: "\<not> is_set pip" and rest: "\<not> list_ex pip_is_set deps" by simp_all
    have it: "iterate k2 pip = iterate key_of pip" using ns by (rule iterate_no_set)
    show ?thesis
    proof (cases "iterate key_of pip")
      case (Inl e)
      with Some it show ?thesis by simp
    next
      case (Inr pkgs)
      show ?thesis
      proof (cases "split_names pkgs")
        case (Inl e)
        with Some it Inr show ?thesis by simp
      next
        case names: (Inr names)
        from 3(2) [OF Some Inr names rest] Some it Inr names show ?thesis by simp
      qed
    qed
  qed
qed simp_all

lemma parse_no_set:
  assumes "case safe_load contents of Inl e \<Rightarrow> True | Inr env \<Rightarrow> \<not> iterates_set env"
  shows "parse_environment_yml safe_load k1 contents = parse_environment_yml safe_load k2 contents"
proof (cases "safe_load contents")
  case (Inl e)
  then show ?thesis by (simp add: parse_environment_yml_def)
next
  case env: (Inr env)
  with assms have ni: "\<not> iterates_set env" by simp
  show ?thesis
  proof (cases "subscript env ''dependencies''")
    case (Inl e)
    with env show ?thesis by (simp add: parse_environment_yml_def)
  next
    case d: (Inr dependencies)
    with ni have ns: "\<not> is_set dependencies" by (simp add: iterates_set_def)
    then have it: "iterate k1 dependencies = iterate (\<lambda>v. 0) dependencies"
      and it2: "iterate k2 dependencies = iterate (\<lambda>v. 0) dependencies"
      by (rule iterate_no_set)+
    show ?thesis
    proof (cases "iterate (\<lambda>v. 0) dependencies")
      case (Inl e)
      with env d it it2 show ?thesis by (simp add: parse_environment_yml_def)
    next
      case (Inr deps)
      with ni d have "\<not> list_ex pip_is_set deps" by (simp add: iterates_set_def)
      then have "dependencies_loop k1 deps [] = dependencies_loop k2 deps []"
        by (rule dependencies_loop_no_set)
      with env d it it2 Inr show ?thesis by (simp add: parse_environment_yml_def)
    qed
  qed
qed

lemma lines_loop_eq:
  "lines_loop lines acc =
     acc @ map (\<lambda>line. str_join CHR ''='' (take 2 (str_split CHR ''='' line)))
             (filter (str_contains ''='') lines)"
  by (induction lines arbitrary: acc) simp_all

lemma written_text_from:
  "foldl (\<lambda>text package. text @ package @ [CHR 0x0A]) acc ps = acc @ concat (map (\<lambda>p. p @ [CHR 0x0A]) ps)"
  by (induction ps arbitrary: acc) simp_all

lemma written_text_concat: "written_text ps = concat (map (\<lambda>p. p @ [CHR 0x0A]) ps)"
  by (simp add: written_text_def written_text_from)

section \<open>Properties of the lookup \<open>dict\<close> and of the filter\<close>

lemma conda_dict_snoc:
  "conda_dict (conda_list @ [pkg]) =
     (if str_contains ''='' pkg
      then AList.update (hd (str_split CHR ''='' pkg)) pkg (conda_dict conda_list)
      else conda_dict conda_list)"
  by (simp add: conda_dict_def)

lemma conda_dict_Nil: "conda_dict [] = []"
  by (simp add: conda_dict_def)

lemma map_of_conda_dict:
  "map_of (conda_dict conda_list) name =
     (let matches = filter (\<lambda>pkg. str_contains ''='' pkg \<and> hd (str_split CHR ''='' pkg) = name)
                      conda_list
      in if matches = [] then None else Some (last matches))"
proof (induction conda_list rule: rev_induct)
  case Nil
  show ?case by (simp add: conda_dict_Nil)
next
  case (snoc pkg conda_list)
  show ?case
  proof (cases "str_contains ''='' pkg")
    case False
    with snoc show ?thesis by (simp add: conda_dict_snoc)
  next
    case True
    show ?thesis
    proof (cases "hd (str_split CHR ''='' pkg) = name")
      case same: True
      with True show ?thesis by (simp add: conda_dict_snoc update_conv')
    next
      case other: False
      with True snoc show ?thesis by (simp add: conda_dict_snoc update_conv')
    qed
  qed
qed

lemma set_update_subset: "set (AList.update k v al) \<subseteq> insert (k, v) (set al)"
  by (induction al) auto

lemma conda_dict_pairs:
  "(k, v) \<in> set (conda_dict conda_list) \<Longrightarrow> k = hd (str_split CHR ''='' v) \<and> v \<in> set conda_list"
proof (induction conda_list arbitrary: k v rule: rev_induct)
  case Nil
  then show ?case by (simp add: conda_dict_Nil)
next
  case (snoc pkg conda_list)
  show ?case
  proof (cases "str_contains ''='' pkg")
    case False
    with snoc show ?thesis by (simp add: conda_dict_snoc)
  next
    case True
    with snoc.prems
    have "(k, v) \<in> insert (hd (str_split CHR ''='' pkg), pkg) (set (conda_dict conda_list))"
      using set_update_subset [of "hd (str_split CHR ''='' pkg)" pkg "conda_dict conda_list"]
      by (auto simp: conda_dict_snoc)
    with snoc.IH show ?thesis by auto
  qed
qed

lemma distinct_conda_dict: "distinct (map fst (conda_dict conda_list))"
  by (induction conda_list rule: rev_induct) (simp_all add: conda_dict_Nil conda_dict_snoc distinct_update)

lemma filtered_packages_concat:
  "filtered_packages history d =
     concat (map (\<lambda>name. case map_of d name of None \<Rightarrow> [] | Some v \<Rightarrow> [v]) history)"
  unfolding filtered_packages_def
  by (induction history) (auto split: option.splits)

lemma filtered_packages_append:
  "filtered_packages (xs @ ys) d = filtered_packages xs d @ filtered_packages ys d"
  by (simp add: filtered_packages_def)

lemma filtered_packages_mem:
  "e \<in> set (filtered_packages history d) \<Longrightarrow> \<exists>name \<in> set history. map_of d name = Some e"
  unfolding filtered_packages_concat
  by (induction history) (auto split: option.splits)

section \<open>Lines and fields\<close>

text \<open>No line that \<open>splitlines\<close> returns holds a line boundary, and the first two
  fields of a line hold no character that the line does not.\<close>

lemma splitlines_from_no_break:
  "list_all (\<lambda>c. \<not> is_linebreak c) cur \<Longrightarrow>
   list_all (list_all (\<lambda>c. \<not> is_linebreak c)) (splitlines_from cur s)"
proof (induction cur s rule: splitlines_from.induct)
  case (1 cur)
  then show ?case by simp
next
  case (2 cur c)
  then show ?case by simp
next
  case (3 cur c d cs)
  show ?case
  proof (cases "c = CHR 0x0D \<and> d = CHR 0x0A")
    case True
    with 3(1) 3(4) show ?thesis by simp
  next
    case False
    then have step: "splitlines_from cur (c # d # cs) =
        (if is_linebreak c then cur # splitlines_from [] (d # cs)
         else splitlines_from (cur @ [c]) (d # cs))"
      by (simp only: splitlines_from.simps if_False)
    show ?thesis
    proof (cases "is_linebreak c")
      case True
      with 3(2) [OF False True] 3(4) show ?thesis unfolding step by simp
    next
      case nb: False
      with 3(3) [OF False nb] 3(4) show ?thesis unfolding step by simp
    qed
  qed
qed

lemma splitlines_no_newline: "l \<in> set (splitlines s) \<Longrightarrow> CHR 0x0A \<notin> set l"
proof -
  assume l: "l \<in> set (splitlines s)"
  have "list_all (list_all (\<lambda>c. \<not> is_linebreak c)) (splitlines s)"
    unfolding splitlines_def by (rule splitlines_from_no_break) simp
  with l have "list_all (\<lambda>c. \<not> is_linebreak c) l"
    by (simp add: list_all_iff)
  moreover have "is_linebreak (CHR 0x0A)"
    by (simp add: is_linebreak_def)
  ultimately show ?thesis
    by (auto simp: list_all_iff)
qed

lemma take2_str_split:
  "take 2 (str_split sep s) =
     (case dropWhile (\<lambda>c. c \<noteq> sep) s of
        [] \<Rightarrow> [takeWhile (\<lambda>c. c \<noteq> sep) s]
      | _ # rest \<Rightarrow> [takeWhile (\<lambda>c. c \<noteq> sep) s, takeWhile (\<lambda>c. c \<noteq> sep) rest])"
proof (cases "dropWhile (\<lambda>c. c \<noteq> sep) s")
  case Nil
  have "str_split sep s = [takeWhile (\<lambda>c. c \<noteq> sep) s]"
    by (subst str_split_unfold) (simp only: Nil list.case)
  then show ?thesis by (simp only: Nil list.case) simp
next
  case (Cons x rest)
  obtain fields where "str_split sep rest = takeWhile (\<lambda>c. c \<noteq> sep) rest # fields"
    using str_split_unfold [of sep rest] by blast
  moreover have "str_split sep s = takeWhile (\<lambda>c. c \<noteq> sep) s # str_split sep rest"
    by (subst str_split_unfold) (simp only: Cons list.case)
  ultimately have "take 2 (str_split sep s) =
      [takeWhile (\<lambda>c. c \<noteq> sep) s, takeWhile (\<lambda>c. c \<noteq> sep) rest]"
    by (simp add: numeral_2_eq_2)
  then show ?thesis by (simp only: Cons list.case)
qed

lemma str_join_take2:
  "str_join sep (take 2 (str_split sep s)) =
     (case dropWhile (\<lambda>c. c \<noteq> sep) s of
        [] \<Rightarrow> takeWhile (\<lambda>c. c \<noteq> sep) s
      | _ # rest \<Rightarrow> takeWhile (\<lambda>c. c \<noteq> sep) s @ sep # takeWhile (\<lambda>c. c \<noteq> sep) rest)"
  by (cases "dropWhile (\<lambda>c. c \<noteq> sep) s") (simp_all only: take2_str_split str_join.simps list.case)

lemma set_str_join_take2: "set (str_join sep (take 2 (str_split sep s))) \<subseteq> insert sep (set s)"
proof (cases "dropWhile (\<lambda>c. c \<noteq> sep) s")
  case Nil
  have "set (takeWhile (\<lambda>c. c \<noteq> sep) s) \<subseteq> set s"
    by (auto dest: set_takeWhileD)
  then show ?thesis
    unfolding str_join_take2 Nil list.case by blast
next
  case (Cons x rest)
  have "set rest \<subseteq> set s"
    using set_dropWhileD [of _ "\<lambda>c. c \<noteq> sep" s] unfolding Cons by auto
  moreover have "set (takeWhile (\<lambda>c. c \<noteq> sep) t) \<subseteq> set t" for t
    by (auto dest: set_takeWhileD)
  ultimately have "set (takeWhile (\<lambda>c. c \<noteq> sep) s @ sep # takeWhile (\<lambda>c. c \<noteq> sep) rest)
      \<subseteq> insert sep (set s)"
    by fastforce
  then show ?thesis
    unfolding str_join_take2 Cons list.case .
qed

lemma entries_written_text:
  "\<forall>p \<in> set ps. CHR 0x0A \<notin> set p \<Longrightarrow> butlast (str_split (CHR 0x0A) (written_text ps)) = ps"
proof -
  assume a: "\<forall>p \<in> set ps. CHR 0x0A \<notin> set p"
  then have "str_split (CHR 0x0A) (written_text ps) = ps @ [[]]"
    by (induction ps) (simp_all add: written_text_concat str_split_append_sep)
  then show ?thesis by simp
qed

section \<open>Properties of a run\<close>

lemmas example_defs = main_def seq_def yml_contents_def get_active_conda_env_def export_conda_env_def
  parse_environment_yml_def get_conda_list_versions_def splitlines_def is_linebreak_def
  filter_conda_list_with_history_def filtered_packages_def conda_dict_def
  write_requirements_txt_def written_text_def digit_def conda_export_argv_def
  conda_list_argv_def format_env_def subprocess_run_def decoded_def
  example_text_def example_env_def example_set_text_def example_set_env_def
  example_load_def example_listing_def example_world_def reseeded_world_def garbled_world_def

lemma seq_Inl: "seq (evs, Inl s) f = (evs, Inl s)"
  by (simp add: seq_def)

lemma seq_Inr: "seq (evs, Inr a) f = (evs @ fst (f a), snd (f a))"
  by (simp add: seq_def split: prod.splits)

lemma files_written_append: "files_written (xs @ ys) = files_written xs @ files_written ys"
  by (induction xs rule: files_written.induct) simp_all

lemma files_written_active_env: "files_written (fst (get_active_conda_env w)) = []"
  by (simp add: get_active_conda_env_def Let_def)

lemma files_written_export: "files_written (fst (export_conda_env w)) = []"
  by (simp add: export_conda_env_def split: sum.splits)

lemma files_written_list: "files_written (fst (get_conda_list_versions w)) = []"
  by (simp add: get_conda_list_versions_def split: sum.splits)

lemma yml_contents_file:
  "\<not> (yml_file = None \<or> yml_file = Some []) \<Longrightarrow>
   yml_contents w yml_file =
     (case read_text w (the yml_file) of
        Inl e \<Rightarrow> ([], Inl (Raised e))
      | Inr contents \<Rightarrow> ([], Inr contents))"
  by (simp only: yml_contents_def if_False)

lemma yml_contents_env:
  "yml_file = None \<or> yml_file = Some [] \<Longrightarrow>
   yml_contents w yml_file =
     seq (get_active_conda_env w) (\<lambda>conda_env.
       seq ([LogInfo (''Retrieving conda environment: '' @ format_env conda_env)], Inr ())
         (\<lambda>_. export_conda_env w))"
  by (simp only: yml_contents_def if_True)

lemma files_written_yml_contents: "files_written (fst (yml_contents w yml_file)) = []"
proof (cases "yml_file = None \<or> yml_file = Some []")
  case False
  show ?thesis
    unfolding yml_contents_file [OF False] by (simp split: sum.splits)
next
  case True
  obtain e1 r1 where a: "get_active_conda_env w = (e1, r1)" by (cases "get_active_conda_env w")
  obtain e2 r2 where b: "export_conda_env w = (e2, r2)" by (cases "export_conda_env w")
  have "files_written e1 = []" using files_written_active_env [of w] a by simp
  moreover have "files_written e2 = []" using files_written_export [of w] b by simp
  ultimately show ?thesis
    unfolding yml_contents_env [OF True] a
    by (cases r1) (simp_all add: seq_def b files_written_append)
qed

lemma main_unfold:
  "main safe_load w yml_file output =
     (case yml_contents w yml_file of
        (evs, Inl s) \<Rightarrow> (evs, Inl s)
      | (evs, Inr contents) \<Rightarrow>
          (case parse_environment_yml safe_load (hash_key w) contents of
             Inl e \<Rightarrow> (evs, Inl (Raised e))
           | Inr history_packages \<Rightarrow>
               (case get_conda_list_versions w of
                  (evs', Inl s) \<Rightarrow> (evs @ evs', Inl s)
                | (evs', Inr conda_list) \<Rightarrow>
                    (evs @ evs' @
                       fst (write_requirements_txt w
                              (filter_conda_list_with_history history_packages conda_list) output),
                     snd (write_requirements_txt w
                              (filter_conda_list_with_history history_packages conda_list) output)))))"
  by (simp add: main_def seq_def split: prod.splits sum.splits)

lemma files_written_main:
  "files_written (fst (main safe_load w yml_file output)) =
     (case snd (yml_contents w yml_file) of
        Inl s \<Rightarrow> []
      | Inr contents \<Rightarrow>
          (case parse_environment_yml safe_load (hash_key w) contents of
             Inl e \<Rightarrow> []
           | Inr history_packages \<Rightarrow>
               (case snd (get_conda_list_versions w) of
                  Inl s \<Rightarrow> []
                | Inr conda_list \<Rightarrow>
                    if writable w output
                    then [written_text (filter_conda_list_with_history history_packages conda_list)]
                    else [])))"
proof -
  obtain e1 r1 where a: "yml_contents w yml_file = (e1, r1)" by (cases "yml_contents w yml_file")
  obtain e2 r2 where b: "get_conda_list_versions w = (e2, r2)" by (cases "get_conda_list_versions w")
  have "files_written e1 = []" using files_written_yml_contents [of w yml_file] a by simp
  moreover have "files_written e2 = []" using files_written_list [of w] b by simp
  ultimately show ?thesis
    by (simp add: main_unfold a b files_written_append write_requirements_txt_def
          split: sum.splits)
qed

lemma list_versions_ok:
  "snd (get_conda_list_versions w) = Inr conda_list \<Longrightarrow>
   \<exists>result. subprocess_run w conda_list_argv = Inr result \<and> returncode result = 0 \<and>
     conda_list = lines_loop (splitlines (stdout result)) []"
  by (auto simp: get_conda_list_versions_def split: sum.splits if_splits)

lemma lines_loop_no_newline:
  "pkg \<in> set (lines_loop (splitlines out) []) \<Longrightarrow> CHR 0x0A \<notin> set pkg"
proof -
  assume "pkg \<in> set (lines_loop (splitlines out) [])"
  then obtain line where line: "line \<in> set (splitlines out)"
    and pkg: "pkg = str_join CHR ''='' (take 2 (str_split CHR ''='' line))"
    by (auto simp: lines_loop_eq)
  have "CHR 0x0A \<notin> set line" using line by (rule splitlines_no_newline)
  moreover have "set pkg \<subseteq> insert CHR ''='' (set line)"
    unfolding pkg by (rule set_str_join_take2)
  ultimately show ?thesis by auto
qed

lemma filter_history_mem:
  assumes "e \<in> set (filter_conda_list_with_history history_packages conda_list)"
  shows "hd (str_split CHR ''='' e) \<in> set history_packages
       \<and> hd (str_split CHR ''='' e) \<in> fst ` set (conda_dict conda_list)
       \<and> e \<in> set conda_list"
proof -
  from assms obtain name where n: "name \<in> set history_packages"
    and m: "map_of (conda_dict conda_list) name = Some e"
    unfolding filter_conda_list_with_history_def by (blast dest: filtered_packages_mem)
  from m have mem: "(name, e) \<in> set (conda_dict conda_list)" by (rule map_of_SomeD)
  then have "name = hd (str_split CHR ''='' e)" and "e \<in> set conda_list"
    using conda_dict_pairs by blast+
  with n mem show ?thesis by force
qed

lemma other_env_exports:
  "yml_file = None \<or> yml_file = Some [] \<Longrightarrow> getenv w ''CONDA_DEFAULT_ENV'' \<noteq> Some ''base'' \<Longrightarrow>
   yml_contents w yml_file =
     (LogInfo (''Retrieving conda environment: '' @ format_env (getenv w ''CONDA_DEFAULT_ENV''))
        # fst (export_conda_env w),
      snd (export_conda_env w))"
  by (simp add: yml_contents_env get_active_conda_env_def seq_def split: prod.splits)

lemma example_run:
  "main example_load (example_world None 0 0) None ''requirements.txt'' =
     ([LogInfo ''Retrieving conda environment: None'',
       Subprocess [''conda'', ''env'', ''export'', ''--from-history''],
       Subprocess [''conda'', ''list'', ''--export''],
       FileWrite ''requirements.txt'' (''numpy=1.2.3'' @ [CHR 0x0A] @ ''flask=2.0.1'' @ [CHR 0x0A]),
       LogInfo ''requirements.txt generated with 2 packages at requirements.txt.''],
      Inr ())"
  by (simp add: example_defs str_of_nat.simps)

text \<open>A command that exits with a non-zero code: what its caller does with it.\<close>

lemma decoded_returncode: "decoded p = Some result \<Longrightarrow> returncode result = exit_code p"
  by (auto simp: decoded_def split: option.splits)

lemma export_failure:
  "run_process w conda_export_argv = Some p \<Longrightarrow> exit_code p \<noteq> 0 \<Longrightarrow>
   export_conda_env w =
     (case decoded p of
        Some result \<Rightarrow>
          ([Subprocess conda_export_argv,
            LogError (''Failed to export conda environment: '' @ stderr result)],
           Inl (SysExit 1))
      | None \<Rightarrow> ([Subprocess conda_export_argv], Inl (Raised UnicodeDecodeError)))"
  by (cases "decoded p")
     (auto simp: export_conda_env_def subprocess_run_def dest: decoded_returncode)

lemma list_failure:
  "run_process w conda_list_argv = Some p \<Longrightarrow> exit_code p \<noteq> 0 \<Longrightarrow>
   get_conda_list_versions w =
     (case decoded p of
        Some result \<Rightarrow>
          ([Subprocess conda_list_argv,
            LogError (''Failed to run conda list: '' @ stderr result)],
           Inl (SysExit 1))
      | None \<Rightarrow> ([Subprocess conda_list_argv], Inl (Raised UnicodeDecodeError)))"
  by (cases "decoded p")
     (auto simp: get_conda_list_versions_def subprocess_run_def dest: decoded_returncode)

text \<open>On a line that contains \<open>=\<close> the code keeps what the specification describes.\<close>

lemma first_two_fields_eq:
  "CHR ''='' \<in> set line \<Longrightarrow>
   str_join CHR ''='' (take 2 (str_split CHR ''='' line)) = first_two_fields_spec line"
proof -
  assume "CHR ''='' \<in> set line"
  then have "dropWhile (\<lambda>c. c \<noteq> CHR ''='') line \<noteq> []" by simp
  then obtain x rest where d: "dropWhile (\<lambda>c. c \<noteq> CHR ''='') line = x # rest"
    by (cases "dropWhile (\<lambda>c. c \<noteq> CHR ''='') line") auto
  show ?thesis
    unfolding str_join_take2 first_two_fields_spec_def d by simp
qed

section \<open>The claims\<close>

subsection \<open>C1: duplicates in the lookup mapping\<close>

text \<open>
  Claim C1, as amended.  The mapping of the filter stage is last-wins: a name is mapped
  to the last line of the listing that contains \<open>=\<close> and has that name before its first
  \<open>=\<close>; every earlier line with the same name is overwritten.  A name that no such line
  carries is not a key.
\<close>

theorem lookup_last_wins:
  "map_of (conda_dict conda_list) name =
     (let matches = filter (\<lambda>pkg. CHR ''='' \<in> set pkg \<and> hd (str_split CHR ''='' pkg) = name)
                      conda_list
      in if matches = [] then None else Some (last matches))"
  using map_of_conda_dict [of conda_list name] by (simp only: str_contains_single)

text \<open>
  Claim C1 as stated (first-wins) fails: with the listing \<open>numpy=1.0\<close>, \<open>numpy=2.0\<close> the
  name \<open>numpy\<close> is not mapped to the first entry, and the filter stage emits the second.
\<close>

theorem first_wins_counterexample:
  "map_of (conda_dict [''numpy=1.0'', ''numpy=2.0'']) ''numpy'' \<noteq> Some ''numpy=1.0'' \<and>
   map_of (conda_dict [''numpy=1.0'', ''numpy=2.0'']) ''numpy'' = Some ''numpy=2.0'' \<and>
   filter_conda_list_with_history [''numpy''] [''numpy=1.0'', ''numpy=2.0''] = [''numpy=2.0'']"
  by (simp add: conda_dict_def filter_conda_list_with_history_def filtered_packages_def)

subsection \<open>C2: the filter keeps the extractor's order and omits absent names\<close>

text \<open>
  Claim C2.  For every name sequence and every lookup mapping \<open>d\<close>, the filter stage
  outputs, name by name in the extractor's order, the string of each name that is a key of
  \<open>d\<close> and nothing for a name that is not: the output of a concatenation is the
  concatenation of the outputs, a present name gives exactly its string, an absent one
  gives nothing.  Extractor order \<open>b\<close>, \<open>a\<close> with the lookup \<open>a \<mapsto> a=1\<close>, \<open>b \<mapsto> b=2\<close>
  yields \<open>b=2\<close>, \<open>a=1\<close>.
\<close>

theorem filter_stage_order:
  "filtered_packages history d =
     concat (map (\<lambda>name. case map_of d name of None \<Rightarrow> [] | Some v \<Rightarrow> [v]) history) \<and>
   filtered_packages (xs @ ys) d = filtered_packages xs d @ filtered_packages ys d \<and>
   (map_of d name = Some v \<longrightarrow> filtered_packages [name] d = [v]) \<and>
   (map_of d name = None \<longrightarrow> filtered_packages [name] d = []) \<and>
   filtered_packages [''b'', ''a''] [(''a'', ''a=1''), (''b'', ''b=2'')] = [''b=2'', ''a=1''] \<and>
   filter_conda_list_with_history [''b'', ''a''] [''a=1'', ''b=2''] = [''b=2'', ''a=1'']"
proof -
  have "filtered_packages [''b'', ''a''] [(''a'', ''a=1''), (''b'', ''b=2'')] = [''b=2'', ''a=1'']"
    by (simp add: filtered_packages_def)
  moreover have "filter_conda_list_with_history [''b'', ''a''] [''a=1'', ''b=2''] = [''b=2'', ''a=1'']"
    by (simp add: conda_dict_def filter_conda_list_with_history_def filtered_packages_def)
  moreover have "map_of d name = Some v \<longrightarrow> filtered_packages [name] d = [v]"
    by (simp add: filtered_packages_def)
  moreover have "map_of d name = None \<longrightarrow> filtered_packages [name] d = []"
    by (simp add: filtered_packages_def)
  ultimately show ?thesis
    using filtered_packages_concat [of history d] filtered_packages_append [of xs ys d]
    by blast
qed

theorem filter_stage_order_witness:
  "map_of [(''a'', ''a=1''), (''b'', ''b=2'')] ''b'' = Some ''b=2'' \<and>
   filtered_packages [''b''] [(''a'', ''a=1''), (''b'', ''b=2'')] = [''b=2''] \<and>
   map_of [(''a'', ''a=1''), (''b'', ''b=2'')] ''c'' = None \<and>
   filtered_packages [''c''] [(''a'', ''a=1''), (''b'', ''b=2'')] = []"
  using filter_stage_order [of "[]" "[(''a'', ''a=1''), (''b'', ''b=2'')]" "[]" "[]" "''b''" "''b=2''"]
    filter_stage_order [of "[]" "[(''a'', ''a=1''), (''b'', ''b=2'')]" "[]" "[]" "''c''" "''b=2''"]
  by simp

subsection \<open>C3: every written entry is in the extractor's output and in the lookup\<close>

text \<open>
  Claim C3.  Whenever a run writes a file, the run resolved a description, extracted the
  names \<open>history_packages\<close> from it and built the lookup from the listing \<open>conda_list\<close>;
  the text written is exactly the entries the filter stage returns for them, each followed
  by a newline and nothing else; these entries are the lines of the text; and every one of
  them has a name (the part before its first \<open>=\<close>) that is both one of
  \<open>history_packages\<close> and a key of \<open>conda_dict conda_list\<close>.
\<close>

theorem written_entries_in_both:
  assumes "text \<in> set (files_written (fst (main safe_load w yml_file output)))"
  shows "\<exists>contents history_packages conda_list.
           snd (yml_contents w yml_file) = Inr contents \<and>
           parse_environment_yml safe_load (hash_key w) contents = Inr history_packages \<and>
           snd (get_conda_list_versions w) = Inr conda_list \<and>
           text = written_text (filter_conda_list_with_history history_packages conda_list) \<and>
           text = concat (map (\<lambda>entry. entry @ [CHR 0x0A])
                            (filter_conda_list_with_history history_packages conda_list)) \<and>
           file_entries text = filter_conda_list_with_history history_packages conda_list \<and>
           (\<forall>entry \<in> set (filter_conda_list_with_history history_packages conda_list).
              hd (str_split CHR ''='' entry) \<in> set history_packages \<and>
              hd (str_split CHR ''='' entry) \<in> fst ` set (conda_dict conda_list)) \<and>
           (\<forall>entry \<in> set (file_entries text).
              hd (str_split CHR ''='' entry) \<in> set history_packages \<and>
              hd (str_split CHR ''='' entry) \<in> fst ` set (conda_dict conda_list))"
proof -
  have "\<exists>contents history_packages conda_list.
          snd (yml_contents w yml_file) = Inr contents \<and>
          parse_environment_yml safe_load (hash_key w) contents = Inr history_packages \<and>
          snd (get_conda_list_versions w) = Inr conda_list \<and>
          text = written_text (filter_conda_list_with_history history_packages conda_list)"
  proof (cases "snd (yml_contents w yml_file)")
    case Inl
    with assms show ?thesis by (simp add: files_written_main)
  next
    case c: (Inr contents)
    show ?thesis
    proof (cases "parse_environment_yml safe_load (hash_key w) contents")
      case Inl
      with assms c show ?thesis by (simp add: files_written_main)
    next
      case h: (Inr history_packages)
      show ?thesis
      proof (cases "snd (get_conda_list_versions w)")
        case Inl
        with assms c h show ?thesis by (simp add: files_written_main)
      next
        case l: (Inr conda_list)
        with assms c h show ?thesis by (simp add: files_written_main split: if_splits)
      qed
    qed
  qed
  then obtain contents history_packages conda_list
    where c: "snd (yml_contents w yml_file) = Inr contents"
      and h: "parse_environment_yml safe_load (hash_key w) contents = Inr history_packages"
      and l: "snd (get_conda_list_versions w) = Inr conda_list"
      and t: "text = written_text (filter_conda_list_with_history history_packages conda_list)"
    by blast
  let ?es = "filter_conda_list_with_history history_packages conda_list"
  from l obtain result :: completed_process
    where cl: "conda_list = lines_loop (splitlines (stdout result)) []"
    using list_versions_ok by blast
  have "\<forall>p \<in> set ?es. CHR 0x0A \<notin> set p"
  proof
    fix p assume "p \<in> set ?es"
    then have "p \<in> set conda_list" using filter_history_mem by blast
    then show "CHR 0x0A \<notin> set p" unfolding cl by (rule lines_loop_no_newline)
  qed
  then have fe: "file_entries text = ?es"
    unfolding file_entries_def t by (rule entries_written_text)
  have names: "\<forall>entry \<in> set ?es.
              hd (str_split CHR ''='' entry) \<in> set history_packages \<and>
              hd (str_split CHR ''='' entry) \<in> fst ` set (conda_dict conda_list)"
    using filter_history_mem by blast
  then have names': "\<forall>entry \<in> set (file_entries text).
              hd (str_split CHR ''='' entry) \<in> set history_packages \<and>
              hd (str_split CHR ''='' entry) \<in> fst ` set (conda_dict conda_list)"
    unfolding fe .
  have t': "text = concat (map (\<lambda>entry. entry @ [CHR 0x0A]) ?es)"
    unfolding t by (rule written_text_concat)
  from c h l t t' fe names names' show ?thesis by blast
qed

theorem written_entries_in_both_witness:
  "''numpy=1.2.3'' @ [CHR 0x0A] @ ''flask=2.0.1'' @ [CHR 0x0A]
     \<in> set (files_written
              (fst (main example_load (example_world None 0 0) None ''requirements.txt''))) \<and>
   file_entries (''numpy=1.2.3'' @ [CHR 0x0A] @ ''flask=2.0.1'' @ [CHR 0x0A])
     = [''numpy=1.2.3'', ''flask=2.0.1''] \<and>
   (\<exists>contents history_packages conda_list.
      snd (yml_contents (example_world None 0 0) None) = Inr contents \<and>
      parse_environment_yml example_load (hash_key (example_world None 0 0)) contents
        = Inr history_packages \<and>
      snd (get_conda_list_versions (example_world None 0 0)) = Inr conda_list \<and>
      ''numpy=1.2.3'' @ [CHR 0x0A] @ ''flask=2.0.1'' @ [CHR 0x0A]
        = written_text (filter_conda_list_with_history history_packages conda_list) \<and>
      filter_conda_list_with_history history_packages conda_list
        = [''numpy=1.2.3'', ''flask=2.0.1''] \<and>
      (\<forall>entry \<in> set (file_entries (''numpy=1.2.3'' @ [CHR 0x0A] @ ''flask=2.0.1'' @ [CHR 0x0A])).
         hd (str_split CHR ''='' entry) \<in> set history_packages \<and>
         hd (str_split CHR ''='' entry) \<in> fst ` set (conda_dict conda_list)))"
proof -
  have a: "''numpy=1.2.3'' @ [CHR 0x0A] @ ''flask=2.0.1'' @ [CHR 0x0A]
     \<in> set (files_written
              (fst (main example_load (example_world None 0 0) None ''requirements.txt'')))"
    by (simp add: example_run)
  have b: "file_entries (''numpy=1.2.3'' @ [CHR 0x0A] @ ''flask=2.0.1'' @ [CHR 0x0A])
      = [''numpy=1.2.3'', ''flask=2.0.1'']"
    by (simp add: file_entries_def)
  from written_entries_in_both [OF a]
  obtain contents history_packages conda_list where
    w: "snd (yml_contents (example_world None 0 0) None) = Inr contents"
       "parse_environment_yml example_load (hash_key (example_world None 0 0)) contents
          = Inr history_packages"
       "snd (get_conda_list_versions (example_world None 0 0)) = Inr conda_list"
       "''numpy=1.2.3'' @ [CHR 0x0A] @ ''flask=2.0.1'' @ [CHR 0x0A]
          = written_text (filter_conda_list_with_history history_packages conda_list)"
       "file_entries (''numpy=1.2.3'' @ [CHR 0x0A] @ ''flask=2.0.1'' @ [CHR 0x0A])
          = filter_conda_list_with_history history_packages conda_list"
       "\<forall>entry \<in> set (file_entries (''numpy=1.2.3'' @ [CHR 0x0A] @ ''flask=2.0.1'' @ [CHR 0x0A])).
         hd (str_split CHR ''='' entry) \<in> set history_packages \<and>
         hd (str_split CHR ''='' entry) \<in> fst ` set (conda_dict conda_list)"
    by blast
  from w(5) b have "filter_conda_list_with_history history_packages conda_list
      = [''numpy=1.2.3'', ''flask=2.0.1'']" by simp
  with a b w show ?thesis by blast
qed

subsection \<open>C4: no active environment\<close>

text \<open>
  With the base environment active the run stops with the message and exit status 1, and
  with any other name it goes on to the export.
\<close>

lemma base_env_exits:
  "yml_file = None \<or> yml_file = Some [] \<Longrightarrow> getenv w ''CONDA_DEFAULT_ENV'' = Some ''base'' \<Longrightarrow>
   main safe_load w yml_file output =
     ([LogError ''You are using the 'base' conda environment. Please activate another environment.''],
      Inl (SysExit 1))"
  by (simp add: main_def yml_contents_env get_active_conda_env_def seq_def)

text \<open>
  An unset variable is not the string \<open>base\<close>, so \<open>get_active_conda_env\<close> returns \<open>None\<close>
  without a message and the export is the next thing that runs.
\<close>

lemma unset_env_returns_None:
  "getenv w ''CONDA_DEFAULT_ENV'' = None \<Longrightarrow> get_active_conda_env w = ([], Inr None)"
  by (simp add: get_active_conda_env_def)

text \<open>
  Claim C4 at the input it fails on.  No description file is given and
  \<open>CONDA_DEFAULT_ENV\<close> is unset: \<open>get_active_conda_env\<close> returns \<open>None\<close>, the run logs
  \<open>Retrieving conda environment: None\<close>, exports, lists, writes the file and ends with
  exit status 0, where the claim has a fatal stop with exit status 1.
\<close>

theorem unset_env_proceeds:
  "getenv (example_world None 0 0) ''CONDA_DEFAULT_ENV'' = None \<and>
   get_active_conda_env (example_world None 0 0) = ([], Inr None) \<and>
   main example_load (example_world None 0 0) None ''requirements.txt'' =
     ([LogInfo ''Retrieving conda environment: None'',
       Subprocess [''conda'', ''env'', ''export'', ''--from-history''],
       Subprocess [''conda'', ''list'', ''--export''],
       FileWrite ''requirements.txt'' (''numpy=1.2.3'' @ [CHR 0x0A] @ ''flask=2.0.1'' @ [CHR 0x0A]),
       LogInfo ''requirements.txt generated with 2 packages at requirements.txt.''],
      Inr ()) \<and>
   exit_status (snd (main example_load (example_world None 0 0) None ''requirements.txt'')) = 0"
  by (simp add: example_run) (simp add: example_world_def get_active_conda_env_def)

subsection \<open>C5: the extractor on the example of the specification\<close>

text \<open>
  Claim C5.  Whatever else the document holds, if its \<open>dependencies\<close> are \<open>numpy=1.2\<close>,
  \<open>python=3.9\<close> and a pip group with \<open>flask=2.0\<close>, the extractor returns exactly \<open>numpy\<close>,
  \<open>flask\<close>.
\<close>

theorem extractor_example:
  assumes "safe_load contents = Inr env"
    and "subscript env ''dependencies'' =
           Inr (YSeq [YStr ''numpy=1.2'', YStr ''python=3.9'',
                      YMap [(YStr ''pip'', YSeq [YStr ''flask=2.0''])]])"
  shows "parse_environment_yml safe_load key_of contents = Inr [''numpy'', ''flask'']"
  using assms by (simp add: parse_environment_yml_def)

theorem extractor_example_witness:
  "example_load example_text = Inr example_env \<and>
   parse_environment_yml example_load (\<lambda>v. 0) example_text = Inr [''numpy'', ''flask'']"
proof -
  have a: "example_load example_text = Inr example_env"
    by (simp add: example_load_def)
  have b: "subscript example_env ''dependencies'' =
           Inr (YSeq [YStr ''numpy=1.2'', YStr ''python=3.9'',
                      YMap [(YStr ''pip'', YSeq [YStr ''flask=2.0''])]])"
    by (simp add: example_env_def)
  show ?thesis
    using a extractor_example [of example_load example_text example_env, OF a b] by simp
qed

subsection \<open>C6: the lookup parser keeps the first two fields\<close>

text \<open>
  Claim C6.  When the listing command returns 0, the lookup parser returns, for the lines
  of its output that contain \<open>=\<close> and in their order, the first two \<open>=\<close>-delimited fields
  joined by \<open>=\<close>; the lines without \<open>=\<close> leave nothing.  The line \<open>numpy=1.2.3=py39h1\<close>
  yields \<open>numpy=1.2.3\<close>.
\<close>

theorem lookup_parser_lines:
  "(subprocess_run w conda_list_argv = Inr result \<and> returncode result = 0 \<longrightarrow>
      get_conda_list_versions w =
        ([Subprocess conda_list_argv],
         Inr (map first_two_fields_spec
                (filter (\<lambda>line. CHR ''='' \<in> set line) (splitlines (stdout result)))))) \<and>
   lines_loop [''numpy=1.2.3=py39h1''] [] = [''numpy=1.2.3''] \<and>
   lines_loop [''# platform: linux-64''] [] = []"
proof -
  have "map (\<lambda>line. str_join CHR ''='' (take 2 (str_split CHR ''='' line)))
          (filter (\<lambda>line. CHR ''='' \<in> set line) ls) =
        map first_two_fields_spec (filter (\<lambda>line. CHR ''='' \<in> set line) ls)" for ls
    by (rule map_cong) (simp_all add: first_two_fields_eq)
  then have "lines_loop ls [] =
      map first_two_fields_spec (filter (\<lambda>line. CHR ''='' \<in> set line) ls)" for ls
    by (simp add: lines_loop_eq str_contains_single [abs_def])
  then have "subprocess_run w conda_list_argv = Inr result \<and> returncode result = 0 \<longrightarrow>
      get_conda_list_versions w =
        ([Subprocess conda_list_argv],
         Inr (map first_two_fields_spec
                (filter (\<lambda>line. CHR ''='' \<in> set line) (splitlines (stdout result)))))"
    by (simp add: get_conda_list_versions_def)
  moreover have "lines_loop [''numpy=1.2.3=py39h1''] [] = [''numpy=1.2.3'']"
    by simp
  moreover have "lines_loop [''# platform: linux-64''] [] = []"
    by simp
  ultimately show ?thesis by blast
qed

theorem lookup_parser_lines_witness:
  "get_conda_list_versions (example_world None 0 0) =
     ([Subprocess conda_list_argv], Inr [''flask=2.0.1'', ''numpy=1.2.3'', ''python=3.9.1''])"
proof -
  have a: "subprocess_run (example_world None 0 0) conda_list_argv =
      Inr \<lparr> returncode = 0, stdout = example_listing, stderr = ''list failed'' \<rparr>"
    by (simp add: example_world_def subprocess_run_def decoded_def conda_list_argv_def
          conda_export_argv_def)
  have b: "map first_two_fields_spec
             (filter (\<lambda>line. CHR ''='' \<in> set line) (splitlines example_listing))
      = [''flask=2.0.1'', ''numpy=1.2.3'', ''python=3.9.1'']"
    by (simp add: example_listing_def splitlines_def is_linebreak_def first_two_fields_spec_def)
  show ?thesis
    using lookup_parser_lines [of "example_world None 0 0"
        "\<lparr> returncode = 0, stdout = example_listing, stderr = ''list failed'' \<rparr>"] a b
    by simp
qed

subsection \<open>C7: a failing external command ends the run\<close>

text \<open>
  Claim C7, as amended.  If the export runs (no file given, the active environment is not
  base) and exits with a non-zero code, the run ends there with exit status 1 and writes
  no file: when both output streams of the command decode as text, with an error record
  that carries the command's error text and \<open>sys.exit(1)\<close>; when one of them does not,
  with the \<open>UnicodeDecodeError\<close> of \<open>subprocess.run\<close>, which nothing catches, and without
  an error record.  The same holds of the listing, once a description was resolved and
  parsed.  In every case nothing follows the command.
\<close>

theorem external_failure_stops:
  "((yml_file = None \<or> yml_file = Some []) \<and>
    getenv w ''CONDA_DEFAULT_ENV'' \<noteq> Some ''base'' \<and>
    run_process w conda_export_argv = Some p \<and> exit_code p \<noteq> 0 \<longrightarrow>
      main safe_load w yml_file output =
        (case decoded p of
           Some result \<Rightarrow>
             ([LogInfo (''Retrieving conda environment: ''
                        @ format_env (getenv w ''CONDA_DEFAULT_ENV'')),
               Subprocess conda_export_argv,
               LogError (''Failed to export conda environment: '' @ stderr result)],
              Inl (SysExit 1))
         | None \<Rightarrow>
             ([LogInfo (''Retrieving conda environment: ''
                        @ format_env (getenv w ''CONDA_DEFAULT_ENV'')),
               Subprocess conda_export_argv],
              Inl (Raised UnicodeDecodeError))) \<and>
      exit_status (snd (main safe_load w yml_file output)) = 1 \<and>
      files_written (fst (main safe_load w yml_file output)) = []) \<and>
   (yml_contents w yml_file = (evs, Inr contents) \<and>
    parse_environment_yml safe_load (hash_key w) contents = Inr history_packages \<and>
    run_process w conda_list_argv = Some p \<and> exit_code p \<noteq> 0 \<longrightarrow>
      main safe_load w yml_file output =
        (case decoded p of
           Some result \<Rightarrow>
             (evs @ [Subprocess conda_list_argv,
                     LogError (''Failed to run conda list: '' @ stderr result)],
              Inl (SysExit 1))
         | None \<Rightarrow>
             (evs @ [Subprocess conda_list_argv], Inl (Raised UnicodeDecodeError))) \<and>
      exit_status (snd (main safe_load w yml_file output)) = 1 \<and>
      files_written (fst (main safe_load w yml_file output)) = [])"
proof (intro conjI impI)
  assume a: "(yml_file = None \<or> yml_file = Some []) \<and>
    getenv w ''CONDA_DEFAULT_ENV'' \<noteq> Some ''base'' \<and>
    run_process w conda_export_argv = Some p \<and> exit_code p \<noteq> 0"
  then have e: "export_conda_env w =
      (case decoded p of
         Some result \<Rightarrow>
           ([Subprocess conda_export_argv,
             LogError (''Failed to export conda environment: '' @ stderr result)],
            Inl (SysExit 1))
       | None \<Rightarrow> ([Subprocess conda_export_argv], Inl (Raised UnicodeDecodeError)))"
    by (simp add: export_failure)
  from a have y: "yml_contents w yml_file =
      (LogInfo (''Retrieving conda environment: '' @ format_env (getenv w ''CONDA_DEFAULT_ENV''))
         # fst (export_conda_env w),
       snd (export_conda_env w))"
    by (simp add: other_env_exports)
  show m: "main safe_load w yml_file output =
        (case decoded p of
           Some result \<Rightarrow>
             ([LogInfo (''Retrieving conda environment: ''
                        @ format_env (getenv w ''CONDA_DEFAULT_ENV'')),
               Subprocess conda_export_argv,
               LogError (''Failed to export conda environment: '' @ stderr result)],
              Inl (SysExit 1))
         | None \<Rightarrow>
             ([LogInfo (''Retrieving conda environment: ''
                        @ format_env (getenv w ''CONDA_DEFAULT_ENV'')),
               Subprocess conda_export_argv],
              Inl (Raised UnicodeDecodeError)))"
    by (cases "decoded p") (simp_all add: main_unfold y e)
  show "exit_status (snd (main safe_load w yml_file output)) = 1"
    unfolding m by (cases "decoded p") simp_all
  show "files_written (fst (main safe_load w yml_file output)) = []"
    unfolding m by (cases "decoded p") simp_all
next
  assume b: "yml_contents w yml_file = (evs, Inr contents) \<and>
    parse_environment_yml safe_load (hash_key w) contents = Inr history_packages \<and>
    run_process w conda_list_argv = Some p \<and> exit_code p \<noteq> 0"
  then have l: "get_conda_list_versions w =
      (case decoded p of
         Some result \<Rightarrow>
           ([Subprocess conda_list_argv,
             LogError (''Failed to run conda list: '' @ stderr result)],
            Inl (SysExit 1))
       | None \<Rightarrow> ([Subprocess conda_list_argv], Inl (Raised UnicodeDecodeError)))"
    by (simp add: list_failure)
  from b show m: "main safe_load w yml_file output =
        (case decoded p of
           Some result \<Rightarrow>
             (evs @ [Subprocess conda_list_argv,
                     LogError (''Failed to run conda list: '' @ stderr result)],
              Inl (SysExit 1))
         | None \<Rightarrow>
             (evs @ [Subprocess conda_list_argv], Inl (Raised UnicodeDecodeError)))"
    by (cases "decoded p") (simp_all add: main_unfold l)
  show "exit_status (snd (main safe_load w yml_file output)) = 1"
    unfolding m by (cases "decoded p") simp_all
  from b have "snd (get_conda_list_versions w) \<noteq> Inr conda_list" for conda_list
    unfolding l by (cases "decoded p") simp_all
  then show "files_written (fst (main safe_load w yml_file output)) = []"
    by (simp add: files_written_main split: sum.splits)
qed

theorem external_failure_stops_witness:
  "main example_load (example_world (Some ''work'') 3 0) None ''requirements.txt'' =
     ([LogInfo ''Retrieving conda environment: work'',
       Subprocess [''conda'', ''env'', ''export'', ''--from-history''],
       LogError ''Failed to export conda environment: export failed''],
      Inl (SysExit 1)) \<and>
   main example_load (example_world (Some ''work'') 0 2) (Some ''environment.yml'') ''out.txt'' =
     ([Subprocess [''conda'', ''list'', ''--export''],
       LogError ''Failed to run conda list: list failed''],
      Inl (SysExit 1)) \<and>
   files_written
     (fst (main example_load (example_world (Some ''work'') 0 2) (Some ''environment.yml'') ''out.txt''))
     = [] \<and>
   main example_load garbled_world (Some ''environment.yml'') ''out.txt'' =
     ([Subprocess [''conda'', ''list'', ''--export'']], Inl (Raised UnicodeDecodeError)) \<and>
   exit_status (snd (main example_load garbled_world (Some ''environment.yml'') ''out.txt'')) = 1"
proof -
  let ?w1 = "example_world (Some ''work'') 3 0"
  let ?w2 = "example_world (Some ''work'') 0 2"
  let ?p1 = "\<lparr> exit_code = 3, stdout_text = Some example_text,
               stderr_text = Some ''export failed'' \<rparr>"
  let ?p2 = "\<lparr> exit_code = 2, stdout_text = Some example_listing,
               stderr_text = Some ''list failed'' \<rparr>"
  let ?p3 = "\<lparr> exit_code = 3, stdout_text = Some [], stderr_text = None \<rparr>"
  have a: "((None :: path option) = None \<or> (None :: path option) = Some []) \<and>
    getenv ?w1 ''CONDA_DEFAULT_ENV'' \<noteq> Some ''base'' \<and>
    run_process ?w1 conda_export_argv = Some ?p1 \<and> exit_code ?p1 \<noteq> 0"
    by (simp add: example_world_def)
  have b: "yml_contents ?w2 (Some ''environment.yml'') = ([], Inr example_text) \<and>
    parse_environment_yml example_load (hash_key ?w2) example_text = Inr [''numpy'', ''flask''] \<and>
    run_process ?w2 conda_list_argv = Some ?p2 \<and> exit_code ?p2 \<noteq> 0"
    by (simp add: example_world_def yml_contents_def parse_environment_yml_def example_load_def
          example_env_def conda_list_argv_def conda_export_argv_def)
  have c: "yml_contents garbled_world (Some ''environment.yml'') = ([], Inr example_text) \<and>
    parse_environment_yml example_load (hash_key garbled_world) example_text
      = Inr [''numpy'', ''flask''] \<and>
    run_process garbled_world conda_list_argv = Some ?p3 \<and> exit_code ?p3 \<noteq> 0"
    by (simp add: garbled_world_def example_world_def yml_contents_def parse_environment_yml_def
          example_load_def example_env_def)
  have fmt: "format_env (getenv ?w1 ''CONDA_DEFAULT_ENV'') = ''work''"
    by (simp add: example_world_def format_env_def)
  have d1: "decoded ?p1 = Some \<lparr> returncode = 3, stdout = example_text, stderr = ''export failed'' \<rparr>"
    by (simp add: decoded_def)
  have d2: "decoded ?p2 = Some \<lparr> returncode = 2, stdout = example_listing, stderr = ''list failed'' \<rparr>"
    by (simp add: decoded_def)
  have d3: "decoded ?p3 = None"
    by (simp add: decoded_def)
  show ?thesis
    using a b c
      external_failure_stops [of None ?w1 ?p1 example_load "''requirements.txt''"]
      external_failure_stops [of "Some ''environment.yml''" ?w2 ?p2 example_load "''out.txt''"
        "[]" example_text "[''numpy'', ''flask'']"]
      external_failure_stops [of "Some ''environment.yml''" garbled_world ?p3 example_load
        "''out.txt''" "[]" example_text "[''numpy'', ''flask'']"]
    by (simp add: fmt d1 d2 d3 conda_export_argv_def conda_list_argv_def)
qed

text \<open>
  Claim C7 as stated fails where the error stream does not decode: the export exits with
  code 3, and the run ends with the uncaught \<open>UnicodeDecodeError\<close>; no error record is
  logged, so the command's error text is not forwarded.
\<close>

theorem undecodable_error_counterexample:
  "run_process garbled_world conda_export_argv =
     Some \<lparr> exit_code = 3, stdout_text = Some [], stderr_text = None \<rparr> \<and>
   main example_load garbled_world None ''requirements.txt'' =
     ([LogInfo ''Retrieving conda environment: work'',
       Subprocess [''conda'', ''env'', ''export'', ''--from-history'']],
      Inl (Raised UnicodeDecodeError))"
  by (simp add: garbled_world_def example_world_def main_def seq_def yml_contents_def
        get_active_conda_env_def export_conda_env_def subprocess_run_def decoded_def
        format_env_def conda_export_argv_def)

subsection \<open>C8: the file depends on the description, the listing and the order of sets\<close>

text \<open>
  Claim C8, as amended.  Take two runs, in surroundings that may differ in everything
  else (the active environment, where the description comes from, the error streams, the
  output path, the hashes of the process).  If both resolve the same description text,
  their listing commands return the same code and the same output, the output path can be
  written in both or in neither, and either the extractor iterates no set of the
  description or both processes order the elements of a set alike, then the texts they
  write are the same.
\<close>

theorem same_inputs_same_file_up_to_set_order:
  assumes "snd (yml_contents w1 yml_file1) = Inr contents"
    and "snd (yml_contents w2 yml_file2) = Inr contents"
    and "subprocess_run w1 conda_list_argv = Inr result1"
    and "subprocess_run w2 conda_list_argv = Inr result2"
    and "returncode result1 = returncode result2"
    and "stdout result1 = stdout result2"
    and "writable w1 output1 = writable w2 output2"
    and "hash_key w1 = hash_key w2 \<or>
         (case safe_load contents of Inl e \<Rightarrow> True | Inr env \<Rightarrow> \<not> iterates_set env)"
  shows "files_written (fst (main safe_load w1 yml_file1 output1)) =
         files_written (fst (main safe_load w2 yml_file2 output2))"
proof -
  have listing: "snd (get_conda_list_versions w1) = snd (get_conda_list_versions w2)"
    using assms(3-6) by (simp add: get_conda_list_versions_def)
  have names: "parse_environment_yml safe_load (hash_key w1) contents =
               parse_environment_yml safe_load (hash_key w2) contents"
  proof (cases "hash_key w1 = hash_key w2")
    case True
    then show ?thesis by simp
  next
    case False
    with assms(8)
    have "case safe_load contents of Inl e \<Rightarrow> True | Inr env \<Rightarrow> \<not> iterates_set env"
      by blast
    then show ?thesis by (rule parse_no_set)
  qed
  show ?thesis
    unfolding files_written_main assms(1) assms(2) sum.case assms(7) listing names ..
qed

theorem same_inputs_same_file_up_to_set_order_witness:
  "hash_key (example_world None 0 0) (YStr ''numpy'') \<noteq> hash_key reseeded_world (YStr ''numpy'') \<and>
   files_written (fst (main example_load (example_world None 0 0) None ''requirements.txt'')) =
   files_written (fst (main example_load reseeded_world (Some ''environment.yml'') ''out.txt'')) \<and>
   files_written (fst (main example_load (example_world None 0 0) None ''requirements.txt'')) =
     [''numpy=1.2.3'' @ [CHR 0x0A] @ ''flask=2.0.1'' @ [CHR 0x0A]]"
proof -
  let ?w1 = "example_world None 0 0"
  let ?r = "\<lparr> returncode = 0, stdout = example_listing, stderr = ''list failed'' \<rparr>"
  have 0: "hash_key ?w1 (YStr ''numpy'') \<noteq> hash_key reseeded_world (YStr ''numpy'')"
    by (simp add: reseeded_world_def example_world_def)
  have 1: "snd (yml_contents ?w1 None) = Inr example_text"
    by (simp add: yml_contents_def get_active_conda_env_def export_conda_env_def seq_def
          subprocess_run_def decoded_def example_world_def)
  have 2: "snd (yml_contents reseeded_world (Some ''environment.yml'')) = Inr example_text"
    by (simp add: yml_contents_def reseeded_world_def example_world_def)
  have 3: "subprocess_run ?w1 conda_list_argv = Inr ?r"
    by (simp add: example_world_def subprocess_run_def decoded_def conda_list_argv_def
          conda_export_argv_def)
  have 4: "subprocess_run reseeded_world conda_list_argv = Inr ?r"
    by (simp add: reseeded_world_def example_world_def subprocess_run_def decoded_def
          conda_list_argv_def conda_export_argv_def)
  have 7: "writable ?w1 ''requirements.txt'' = writable reseeded_world ''out.txt''"
    by (simp add: reseeded_world_def example_world_def)
  have 8: "hash_key ?w1 = hash_key reseeded_world \<or>
         (case example_load example_text of Inl e \<Rightarrow> True | Inr env \<Rightarrow> \<not> iterates_set env)"
    by (simp add: example_load_def example_env_def iterates_set_def)
  show ?thesis
    using 0 same_inputs_same_file_up_to_set_order
        [of ?w1 None example_text reseeded_world "Some ''environment.yml''" ?r ?r
            "''requirements.txt''" "''out.txt''" example_load, OF 1 2 3 4 refl refl 7 8]
    by (simp add: example_run)
qed

text \<open>
  Claim C8 as stated fails where the dependencies are a \<open>!!set\<close>: two runs read the same
  file and the same listing, in processes whose hashes order the set differently, and
  write the two entries in opposite orders.
\<close>

theorem set_order_counterexample:
  "snd (yml_contents (example_world None 0 0) (Some ''sets.yml'')) = Inr example_set_text \<and>
   snd (yml_contents reseeded_world (Some ''sets.yml'')) = Inr example_set_text \<and>
   run_process (example_world None 0 0) conda_list_argv = run_process reseeded_world conda_list_argv \<and>
   files_written (fst (main example_load (example_world None 0 0) (Some ''sets.yml'') ''requirements.txt''))
     = [''numpy=1.2.3'' @ [CHR 0x0A] @ ''flask=2.0.1'' @ [CHR 0x0A]] \<and>
   files_written (fst (main example_load reseeded_world (Some ''sets.yml'') ''requirements.txt''))
     = [''flask=2.0.1'' @ [CHR 0x0A] @ ''numpy=1.2.3'' @ [CHR 0x0A]]"
  by (simp add: example_defs str_of_nat.simps)

subsection \<open>C9: a plain name without version\<close>

text \<open>
  Claim C9, as amended.  A plain dependency string that contains no \<open>=\<close> and does not
  contain \<open>pip\<close> is extracted as it is, at its place between the names of the entries
  before it and the names of the entries after it; \<open>requests\<close> yields \<open>requests\<close>.
\<close>

theorem plain_name_unchanged:
  assumes "safe_load contents = Inr env"
    and "subscript env ''dependencies'' = Inr (YSeq (before @ YStr dep # after))"
    and "CHR ''='' \<notin> set dep"
    and "\<not> sublist ''pip'' dep"
    and "dependencies_loop key_of before [] = Inr names1"
    and "dependencies_loop key_of after [] = Inr names2"
  shows "parse_environment_yml safe_load key_of contents = Inr (names1 @ dep # names2)"
proof -
  have "\<not> str_contains ''python='' dep"
  proof
    assume "str_contains ''python='' dep"
    then have "sublist ''python='' dep" by (simp add: str_contains_sublist)
    then have "set ''python='' \<subseteq> set dep" by (rule set_mono_sublist)
    with assms(3) show False by simp
  qed
  moreover have "\<not> str_contains ''pip'' dep"
    using assms(4) by (simp add: str_contains_sublist)
  moreover have "hd (str_split CHR ''='' dep) = dep"
    using assms(3) by (simp add: str_split_no_sep)
  ultimately have step:
    "dependencies_loop key_of (YStr dep # after) names1 = Inr ((names1 @ [dep]) @ names2)"
    using assms(6) dependencies_loop_acc [of key_of after "names1 @ [dep]"] by simp
  have "dependencies_loop key_of (before @ YStr dep # after) [] = Inr (names1 @ dep # names2)"
    using step assms(5) by (simp add: dependencies_loop_append)
  with assms(1,2) show ?thesis
    by (simp add: parse_environment_yml_def)
qed

theorem plain_name_unchanged_witness:
  "parse_environment_yml
     (\<lambda>contents. Inr (YMap [(YStr ''dependencies'',
                             YSeq [YStr ''numpy=1.2'', YStr ''requests'', YStr ''scipy''])]))
     (\<lambda>v. 0) ''''
     = Inr [''numpy'', ''requests'', ''scipy'']"
proof -
  let ?env = "YMap [(YStr ''dependencies'',
                     YSeq [YStr ''numpy=1.2'', YStr ''requests'', YStr ''scipy''])]"
  have 2: "subscript ?env ''dependencies'' = Inr (YSeq ([YStr ''numpy=1.2''] @ YStr ''requests'' # [YStr ''scipy'']))"
    by simp
  have 3: "CHR ''='' \<notin> set ''requests''" by simp
  have 4: "\<not> sublist ''pip'' ''requests''" by (simp add: str_contains_sublist [symmetric])
  have 5: "dependencies_loop (\<lambda>v. 0) [YStr ''numpy=1.2''] [] = Inr [''numpy'']" by simp
  have 6: "dependencies_loop (\<lambda>v. 0) [YStr ''scipy''] [] = Inr [''scipy'']" by simp
  show ?thesis
    using plain_name_unchanged [of "\<lambda>contents. Inr ?env" "''''" ?env, OF refl 2 3 4 5 6]
    by simp
qed

text \<open>
  Claim C9 as stated fails for a string that contains \<open>pip\<close>: the plain entry \<open>pip\<close> has
  no \<open>=\<close>, and the extractor yields nothing for it.
\<close>

theorem plain_pip_counterexample:
  "CHR ''='' \<notin> set ''pip'' \<and>
   parse_environment_yml (\<lambda>contents. Inr (YMap [(YStr ''dependencies'', YSeq [YStr ''pip''])]))
     (\<lambda>v. 0) '''' = Inr []"
  by (simp add: parse_environment_yml_def)

subsection \<open>C10: the skip is by substring\<close>

text \<open>
  Claim C10.  A plain dependency string in which \<open>pip\<close> or \<open>python=\<close> occurs anywhere is
  skipped: the loop gives the same result with the entry as without it.  So of
  \<open>pipdeptree\<close>, \<open>ipython=7.0\<close> and \<open>requests\<close> only \<open>requests\<close> is extracted.
\<close>

theorem substring_skip:
  assumes "sublist ''pip'' dep \<or> sublist ''python='' dep"
  shows "dependencies_loop key_of (before @ YStr dep # after) acc =
           dependencies_loop key_of (before @ after) acc \<and>
         parse_environment_yml
           (\<lambda>contents. Inr (YMap [(YStr ''dependencies'',
              YSeq [YStr ''pipdeptree'', YStr ''ipython=7.0'', YStr ''requests''])])) key_of text
           = Inr [''requests'']"
proof -
  from assms have "\<not> (\<not> str_contains ''pip'' dep \<and> \<not> str_contains ''python='' dep)"
    by (simp add: str_contains_sublist)
  then have skip:
    "dependencies_loop key_of (YStr dep # after) names = dependencies_loop key_of after names"
    for names
    by (simp only: dependencies_loop.simps if_False)
  have "dependencies_loop key_of (before @ YStr dep # after) acc =
        dependencies_loop key_of (before @ after) acc"
    unfolding dependencies_loop_append skip ..
  moreover have "parse_environment_yml
           (\<lambda>contents. Inr (YMap [(YStr ''dependencies'',
              YSeq [YStr ''pipdeptree'', YStr ''ipython=7.0'', YStr ''requests''])])) key_of text
           = Inr [''requests'']"
    by (simp add: parse_environment_yml_def)
  ultimately show ?thesis by blast
qed

theorem substring_skip_witness:
  "sublist ''pip'' ''pipdeptree'' \<and> sublist ''python='' ''ipython=7.0'' \<and>
   dependencies_loop (\<lambda>v. 0) [YStr ''numpy'', YStr ''pipdeptree'', YStr ''scipy''] []
     = Inr [''numpy'', ''scipy''] \<and>
   dependencies_loop (\<lambda>v. 0) [YStr ''numpy'', YStr ''ipython=7.0'', YStr ''scipy''] []
     = Inr [''numpy'', ''scipy'']"
proof -
  have 1: "sublist ''pip'' ''pipdeptree''" by (simp add: str_contains_sublist [symmetric])
  have 2: "sublist ''python='' ''ipython=7.0''" by (simp add: str_contains_sublist [symmetric])
  show ?thesis
    using 1 2
      substring_skip [of "''pipdeptree''" "\<lambda>v. 0" "[YStr ''numpy'']" "[YStr ''scipy'']" "[]"]
      substring_skip [of "''ipython=7.0''" "\<lambda>v. 0" "[YStr ''numpy'']" "[YStr ''scipy'']" "[]"]
    by simp
qed

end
